theory Spec2Isabelle
  imports Complex_Main "HOL-Library.Word" "HOL-Library.AList"
begin

section \<open>Nebula marketplace: server (server/server.ts)\<close>

subsection \<open>Configuration and data model\<close>

text \<open>
  \<open>parsedDoc\<close> is read from \<open>./config.js\<close>; the handlers use three of its values:
  \<open>parsedDoc.marketplace.enabled\<close>, \<open>parsedDoc.marketplace.psk\<close> and
  \<open>parsedDoc.db.postgres\<close> (which selects the SQL dialect). It is a parameter of every
  handler below.
\<close>

record parsedDoc =
  marketplace_enabled :: bool
  marketplace_psk :: string
  db_postgres :: bool

text \<open>JSON values, for the \<open>tags\<close> column and for what the client reads from a response.\<close>

datatype json =
    JNull
  | JBool bool
  | JNum int
  | JStr string
  | JArr "json list"
  | JObj "(string \<times> json) list"

text \<open>
  \<open>interface Catalog\<close>, a row of the table \<open>catalog_assets\<close>. The two background
  columns are declared \<open>allowNull: true\<close>.
\<close>

record Catalog =
  package_name :: string
  title :: string
  description :: string
  author :: string
  image_f :: string
  tags :: json
  version :: string
  background_image :: "string option"
  background_video :: "string option"
  payload :: string
  type_f :: string

type_synonym byte = "8 word"

subsection \<open>The file system\<close>

text \<open>
  The file system the server process sees, from the root directory: a tree of directories
  and files. Names are byte strings, as on disk. The process may search every directory
  and write into it; links are not modelled.
\<close>

datatype node = File "byte list" | Dir "string \<Rightarrow> node option"

fun lookup :: "node \<Rightarrow> string list \<Rightarrow> node option" where
  "lookup n [] = Some n"
| "lookup (Dir m) (x # xs) = (case m x of None \<Rightarrow> None | Some c \<Rightarrow> lookup c xs)"
| "lookup (File b) (x # xs) = None"

text \<open>\<open>put fs p n\<close> places \<open>n\<close> at the path \<open>p\<close>, whose parent is a directory of \<open>fs\<close>.\<close>

fun put :: "node \<Rightarrow> string list \<Rightarrow> node \<Rightarrow> node" where
  "put n [] new = new"
| "put (Dir m) (x # xs) new =
     (if xs = [] then Dir (m(x \<mapsto> new))
      else (case m x of None \<Rightarrow> Dir m | Some c \<Rightarrow> Dir (m(x \<mapsto> put c xs new))))"
| "put (File b) (x # xs) new = File b"

text \<open>The limits of Linux on one name and on a whole path (its bytes and the final NUL).\<close>

definition NAME_MAX :: nat where
  "NAME_MAX = 255"

definition PATH_MAX :: nat where
  "PATH_MAX = 4096"

fun split_path :: "string \<Rightarrow> string list" where
  "split_path [] = [[]]"
| "split_path (c # cs) =
     (if c = CHR ''/'' then [] # split_path cs
      else (case split_path cs of [] \<Rightarrow> [[c]] | s # ss \<Rightarrow> (c # s) # ss))"

text \<open>
  Path resolution from the directory \<open>cur\<close> (a path of directories that exist): an empty
  component and \<open>.\<close> stay, \<open>..\<close> goes to the parent (the root is its own parent), a
  name must be a directory of the current one.
\<close>

fun walk :: "node \<Rightarrow> string list \<Rightarrow> string list \<Rightarrow> string list option" where
  "walk fs cur [] = Some cur"
| "walk fs cur (c # cs) =
     (if c = [] \<or> c = ''.'' then walk fs cur cs
      else if c = ''..'' then walk fs (butlast cur) cs
      else if NAME_MAX < length c then None
      else (case lookup fs (cur @ [c]) of
              Some (Dir m) \<Rightarrow> walk fs (cur @ [c]) cs
            | _ \<Rightarrow> None))"

text \<open>A path Node or the kernel refuses as it is: it holds a NUL byte or is too long.\<close>

definition bad_path :: "string \<Rightarrow> bool" where
  "bad_path p = (CHR 0x00 \<in> set p \<or> PATH_MAX \<le> length p)"

definition components :: "string \<Rightarrow> string list" where
  "components p = filter (\<lambda>c. c \<noteq> []) (split_path p)"

text \<open>
  \<open>access(p, constants.F_OK)\<close> on an absolute path: \<open>True\<close> when it resolves, \<open>False\<close> when
  the promise rejects. A path that ends with a slash must name a directory.
\<close>

definition access :: "node \<Rightarrow> string \<Rightarrow> bool" where
  "access fs p =
     (if bad_path p then False
      else (let cs = components p in
            if cs = [] then True
            else (case walk fs [] (butlast cs) of
                    None \<Rightarrow> False
                  | Some par \<Rightarrow>
                      (let final = last cs in
                       if final = ''.'' \<or> final = ''..'' then True
                       else if NAME_MAX < length final then False
                       else (case lookup fs (par @ [final]) of
                               None \<Rightarrow> False
                             | Some (Dir m) \<Rightarrow> True
                             | Some (File b) \<Rightarrow> last p \<noteq> CHR ''/'')))))"

text \<open>\<open>mkdir(p)\<close> on an absolute path: the new file system, or \<open>None\<close> when it rejects.\<close>

definition mkdir :: "node \<Rightarrow> string \<Rightarrow> node option" where
  "mkdir fs p =
     (if bad_path p then None
      else (let cs = components p in
            if cs = [] then None
            else (case walk fs [] (butlast cs) of
                    None \<Rightarrow> None
                  | Some par \<Rightarrow>
                      (let final = last cs in
                       if final = ''.'' \<or> final = ''..'' \<or> NAME_MAX < length final then None
                       else (case lookup fs (par @ [final]) of
                               None \<Rightarrow> Some (put fs (par @ [final]) (Dir Map.empty))
                             | Some n \<Rightarrow> None)))))"

text \<open>
  \<open>pipeline(stream, createWriteStream(p))\<close> on an absolute path: the file is created or
  truncated and holds the bytes of the stream; \<open>None\<close> when the stream cannot be opened
  (the parent is missing, the path names a directory or ends with a slash).
\<close>

definition open_write :: "node \<Rightarrow> string \<Rightarrow> byte list \<Rightarrow> node option" where
  "open_write fs p bytes =
     (if bad_path p \<or> p = [] \<or> last p = CHR ''/'' then None
      else (let cs = components p in
            if cs = [] then None
            else (case walk fs [] (butlast cs) of
                    None \<Rightarrow> None
                  | Some par \<Rightarrow>
                      (let final = last cs in
                       if final = ''.'' \<or> final = ''..'' \<or> NAME_MAX < length final then None
                       else (case lookup fs (par @ [final]) of
                               Some (Dir m) \<Rightarrow> None
                             | _ \<Rightarrow> Some (put fs (par @ [final]) (File bytes)))))))"

definition readFile :: "node \<Rightarrow> string list \<Rightarrow> byte list option" where
  "readFile fs p = (case lookup fs p of Some (File b) \<Rightarrow> Some b | _ \<Rightarrow> None)"

text \<open>
  The server's state: the rows of \<open>catalog_assets\<close> in the order the engine returns
  them, and the file system.
\<close>

record server_state =
  rows :: "Catalog list"
  files :: node

subsection \<open>File URLs\<close>

text \<open>
  \<open>new URL(input, import.meta.url)\<close> for the inputs of this program, which all start with
  \<open>../\<close>: the path of the result, as its list of segments. \<open>here\<close> is the path of
  \<open>import.meta.url\<close> without its last segment (the directory of the server module), a
  parameter of the handlers. Strings are sequences of code units below 256.

  The parser strips trailing C0 controls and spaces from the input, removes every tab and
  newline, and then reads segments: a slash or a backslash ends a segment, \<open>?\<close> or \<open>#\<close>
  ends the path, \<open>.\<close> and \<open>..\<close> (also written with \<open>%2e\<close>) are resolved, and a drive
  letter that starts the path is normalised.
\<close>

definition c0_or_space :: "char \<Rightarrow> bool" where
  "c0_or_space c = ((of_char c :: nat) \<le> 0x20)"

definition strip_c0_space :: "string \<Rightarrow> string" where
  "strip_c0_space s = rev (dropWhile c0_or_space (rev (dropWhile c0_or_space s)))"

definition remove_tab_newline :: "string \<Rightarrow> string" where
  "remove_tab_newline s = filter (\<lambda>c. c \<notin> set [CHR 0x09, CHR 0x0A, CHR 0x0D]) s"

definition lower_e :: "string \<Rightarrow> string" where
  "lower_e s = map (\<lambda>c. if c = CHR ''E'' then CHR ''e'' else c) s"

definition single_dot :: "string \<Rightarrow> bool" where
  "single_dot buffer = (lower_e buffer \<in> set [''.'', ''%2e''])"

definition double_dot :: "string \<Rightarrow> bool" where
  "double_dot buffer = (lower_e buffer \<in> set [''..'', ''.%2e'', ''%2e.'', ''%2e%2e''])"

definition ascii_alpha :: "char \<Rightarrow> bool" where
  "ascii_alpha c =
     ((0x41 \<le> (of_char c :: nat) \<and> (of_char c :: nat) \<le> 0x5A) \<or>
      (0x61 \<le> (of_char c :: nat) \<and> (of_char c :: nat) \<le> 0x7A))"

definition windows_drive_letter :: "string \<Rightarrow> bool" where
  "windows_drive_letter buffer =
     (case buffer of
        [c, d] \<Rightarrow> ascii_alpha c \<and> (d = CHR '':'' \<or> d = CHR ''|'')
      | _ \<Rightarrow> False)"

definition normalized_drive_letter :: "string \<Rightarrow> bool" where
  "normalized_drive_letter buffer =
     (case buffer of [c, d] \<Rightarrow> ascii_alpha c \<and> d = CHR '':'' | _ \<Rightarrow> False)"

definition shorten :: "string list \<Rightarrow> string list" where
  "shorten path =
     (case path of
        [x] \<Rightarrow> if normalized_drive_letter x then path else []
      | _ \<Rightarrow> butlast path)"

definition end_segment :: "string list \<Rightarrow> string \<Rightarrow> bool \<Rightarrow> string list" where
  "end_segment path buffer slash =
     (if double_dot buffer then (if slash then shorten path else shorten path @ [[]])
      else if single_dot buffer then (if slash then path else path @ [[]])
      else path @ [if path = [] \<and> windows_drive_letter buffer
                   then [hd buffer, CHR '':''] else buffer])"

fun path_state :: "string list \<Rightarrow> string \<Rightarrow> string \<Rightarrow> string list" where
  "path_state path buffer [] = end_segment path buffer False"
| "path_state path buffer (c # cs) =
     (if c = CHR ''/'' \<or> c = CHR 0x5C then path_state (end_segment path buffer True) [] cs
      else if c = CHR ''?'' \<or> c = CHR ''#'' then end_segment path buffer False
      else path_state path (buffer @ [c]) cs)"

definition new_URL_path :: "string \<Rightarrow> string list \<Rightarrow> string list" where
  "new_URL_path input here = path_state here [] (remove_tab_newline (strip_c0_space input))"

text \<open>
  \<open>fileURLToPath\<close> (POSIX): the path name must not hold an encoded slash, and
  \<open>decodeURIComponent\<close> must be able to decode it; otherwise it throws (\<open>None\<close>). The
  result is given as the bytes handed to the file system: an escape \<open>%XY\<close> is the byte
  \<open>XY\<close>, any other code unit is its UTF-8 encoding (the parser escapes it and the decoder
  reads it back), and the bytes of a segment must be well-formed UTF-8.
\<close>

definition hexVal :: "char \<Rightarrow> nat option" where
  "hexVal c =
     (let n = (of_char c :: nat) in
      if 0x30 \<le> n \<and> n \<le> 0x39 then Some (n - 0x30)
      else if 0x41 \<le> n \<and> n \<le> 0x46 then Some (n - 0x37)
      else if 0x61 \<le> n \<and> n \<le> 0x66 then Some (n - 0x57)
      else None)"

fun octets :: "string \<Rightarrow> string option" where
  "octets [] = Some []"
| "octets (c # cs) =
     (if c = CHR ''%'' then
        (case cs of
           h1 # h2 # r \<Rightarrow>
             (case (hexVal h1, hexVal h2, octets r) of
                (Some a, Some b, Some os) \<Rightarrow> Some (char_of (16 * a + b) # os)
              | _ \<Rightarrow> None)
         | _ \<Rightarrow> None)
      else
        (case octets cs of
           None \<Rightarrow> None
         | Some os \<Rightarrow>
             (let n = (of_char c :: nat) in
              if n < 0x80 then Some (c # os)
              else Some (char_of (0xC0 + n div 64) # char_of (0x80 + n mod 64) # os))))"

definition cont :: "nat \<Rightarrow> bool" where
  "cont b = (0x80 \<le> b \<and> b \<le> 0xBF)"

fun valid_utf8 :: "nat list \<Rightarrow> bool" where
  "valid_utf8 [] = True"
| "valid_utf8 (b # bs) =
     (if b < 0x80 then valid_utf8 bs
      else if 0xC2 \<le> b \<and> b \<le> 0xDF then
        (case bs of c1 # r \<Rightarrow> cont c1 \<and> valid_utf8 r | _ \<Rightarrow> False)
      else if 0xE0 \<le> b \<and> b \<le> 0xEF then
        (case bs of
           c1 # c2 # r \<Rightarrow>
             cont c1 \<and> cont c2 \<and> (if b = 0xE0 then 0xA0 \<le> c1 else True) \<and>
             (if b = 0xED then c1 \<le> 0x9F else True) \<and> valid_utf8 r
         | _ \<Rightarrow> False)
      else if 0xF0 \<le> b \<and> b \<le> 0xF4 then
        (case bs of
           c1 # c2 # c3 # r \<Rightarrow>
             cont c1 \<and> cont c2 \<and> cont c3 \<and> (if b = 0xF0 then 0x90 \<le> c1 else True) \<and>
             (if b = 0xF4 then c1 \<le> 0x8F else True) \<and> valid_utf8 r
         | _ \<Rightarrow> False)
      else False)"

definition decode_segment :: "string \<Rightarrow> string option" where
  "decode_segment s =
     (case octets s of
        None \<Rightarrow> None
      | Some os \<Rightarrow>
          if CHR ''/'' \<in> set os \<or> \<not> valid_utf8 (map of_char os) then None else Some os)"

fun fileURLToPath :: "string list \<Rightarrow> string option" where
  "fileURLToPath [] = Some []"
| "fileURLToPath (s # ss) =
     (case (decode_segment s, fileURLToPath ss) of
        (Some d, Some p) \<Rightarrow> Some (CHR ''/'' # d @ p)
      | _ \<Rightarrow> None)"

text \<open>The bytes of a JavaScript string in a path given to \<open>node:fs\<close> (UTF-8).\<close>

definition utf8 :: "string \<Rightarrow> string" where
  "utf8 s =
     concat (map (\<lambda>c. if (of_char c :: nat) < 0x80 then [c]
                       else [char_of (0xC0 + (of_char c :: nat) div 64),
                             char_of (0x80 + (of_char c :: nat) mod 64)]) s)"

subsection \<open>Replies\<close>

text \<open>
  Bodies are JSON values. A Fastify reply: \<open>reply.status(n)\<close> sets the status code (200
  at first) and \<open>reply.send(b)\<close> sends \<open>b\<close> under the code set at that moment. The model
  records every call of \<open>send\<close>, in order. The order of the members of a \<open>JObj\<close> carries
  no meaning.
\<close>

record reply =
  statusCode :: nat
  sent :: "(nat \<times> json) list"

definition new_reply :: reply where
  "new_reply = \<lparr>statusCode = 200, sent = []\<rparr>"

definition status_r :: "nat \<Rightarrow> reply \<Rightarrow> reply" where
  "status_r n r = r\<lparr>statusCode := n\<rparr>"

definition send :: "json \<Rightarrow> reply \<Rightarrow> reply" where
  "send b r = r\<lparr>sent := sent r @ [(statusCode r, b)]\<rparr>"

text \<open>The object literals \<open>{ status: m }\<close> and \<open>{ error: m }\<close>.\<close>

definition StatusBody :: "string \<Rightarrow> json" where
  "StatusBody m = JObj [(''status'', JStr m)]"

definition ErrorBody :: "string \<Rightarrow> json" where
  "ErrorBody m = JObj [(''error'', JStr m)]"

subsection \<open>verifyReq\<close>

record headers =
  psk :: "string option"
  packagename :: "string option"

text \<open>\<open>interface VerifyStatus\<close>; the \<open>Error\<close> is kept as its message.\<close>

record VerifyStatus =
  status :: nat
  error :: "string option"

text \<open>
  \<open>!request.headers.packagename\<close> holds for an absent header and for the empty string;
  \<open>!data\<close> holds when \<open>request.file()\<close> gave \<open>undefined\<close>.
\<close>

definition falsy_str :: "string option \<Rightarrow> bool" where
  "falsy_str h = (case h of None \<Rightarrow> True | Some s \<Rightarrow> s = [])"

definition verifyReq :: "parsedDoc \<Rightarrow> headers \<Rightarrow> bool \<Rightarrow> 'd option \<Rightarrow> VerifyStatus" where
  "verifyReq cfg hdrs upload data =
     (if marketplace_enabled cfg = False then
        \<lparr>status = 500, error = Some ''Marketplace Is disabled!''\<rparr>
      else if psk hdrs \<noteq> Some (marketplace_psk cfg) then
        \<lparr>status = 403, error = Some ''PSK isn't correct!''\<rparr>
      else if upload \<and> falsy_str (packagename hdrs) then
        \<lparr>status = 500, error = Some ''No packagename defined!''\<rparr>
      else if upload \<and> data = None then
        \<lparr>status = 400, error = Some ''No file uploaded!''\<rparr>
      else \<lparr>status = 200, error = None\<rparr>)"

subsection \<open>POST /api/upload-asset\<close>

text \<open>
  The file part of a multipart request: its \<open>filename\<close> and the bytes the client sent in
  it. \<open>request.file()\<close> resolves with the file part or with \<open>undefined\<close>, or rejects: with
  \<open>FST_INVALID_MULTIPART_CONTENT_TYPE\<close> (406) when the request is not multipart, or with
  another error of the multipart parser.
\<close>

record upload_file =
  filename :: string
  file_f :: "byte list"

datatype multipart_error = FST_INVALID_MULTIPART_CONTENT_TYPE | MultipartParseError

datatype file_result = Rejects multipart_error | Resolves "upload_file option"

text \<open>
  The plugin is registered without options (\<open>app.register(fastifyMultipart)\<close>), so the
  stream \<open>data.file\<close> ends after the default \<open>fileSize\<close> limit of 1 MiB.
\<close>

definition fileSize :: nat where
  "fileSize = 1048576"

definition file_stream :: "upload_file \<Rightarrow> byte list" where
  "file_stream data = take fileSize (file_f data)"

text \<open>A template literal prints an absent header as \<open>undefined\<close>.\<close>

definition template_str :: "string option \<Rightarrow> string" where
  "template_str h = (case h of None \<Rightarrow> ''undefined'' | Some s \<Rightarrow> s)"

definition upload_failed :: string where
  "upload_failed = ''File couldn't be uploaded! (Package most likely doesn't exist)''"

datatype exn =
    SequelizeUniqueConstraintError
  | SequelizeDatabaseError
  | MultipartError multipart_error
  | SystemError

text \<open>
  \<open>request.file()\<close> is awaited before \<open>verifyReq\<close> and outside any \<open>try\<close>: when it rejects,
  the handler is left by that rejection (\<open>Inl\<close>) and sends nothing. Everything on the
  line of \<open>pipeline\<close> is inside the \<open>try\<close>: an exception of \<open>fileURLToPath\<close> or of the
  stream is answered with the upload-failure reply.
\<close>

definition upload_asset ::
  "string list \<Rightarrow> parsedDoc \<Rightarrow> server_state \<Rightarrow> headers \<Rightarrow> file_result
     \<Rightarrow> (exn + reply) \<times> server_state" where
  "upload_asset here cfg s hdrs result =
     (case result of
        Rejects e \<Rightarrow> (Inl (MultipartError e), s)
      | Resolves data \<Rightarrow>
          (let verify = verifyReq cfg hdrs True data in
           case error verify of
             Some message \<Rightarrow>
               (Inr (send (StatusBody message) (status_r (status verify) new_reply)), s)
           | None \<Rightarrow>
               (case data of
                  None \<Rightarrow> (Inr (send (StatusBody upload_failed) (status_r 500 new_reply)), s)
                | Some d \<Rightarrow>
                    (case fileURLToPath
                            (new_URL_path
                               (''../database_assets/'' @ template_str (packagename hdrs) @
                                ''/'' @ filename d) here) of
                       None \<Rightarrow>
                         (Inr (send (StatusBody upload_failed) (status_r 500 new_reply)), s)
                     | Some p \<Rightarrow>
                         (case open_write (files s) p (file_stream d) of
                            None \<Rightarrow>
                              (Inr (send (StatusBody upload_failed) (status_r 500 new_reply)),
                               s)
                          | Some fs' \<Rightarrow>
                              (Inr (send (StatusBody ''File uploaded successfully!'')
                                      (status_r (status verify) new_reply)),
                               s\<lparr>files := fs'\<rparr>))))))"

subsection \<open>POST /api/create-package\<close>

record create_body =
  cb_uuid :: string
  cb_title :: string
  cb_image :: string
  cb_author :: string
  cb_version :: string
  cb_description :: string
  cb_tags :: json
  cb_payload :: string
  cb_background_video :: "string option"
  cb_background_image :: "string option"
  cb_type :: string


text \<open>
  \<open>catalogAssets.create\<close>: the column \<open>package_name\<close> is \<open>unique: true\<close>, so inserting a
  second row with a name already in the table rejects.
\<close>

definition create_row :: "Catalog \<Rightarrow> Catalog list \<Rightarrow> exn + Catalog list" where
  "create_row r rs =
     (if package_name r \<in> set (map package_name rs) then Inl SequelizeUniqueConstraintError
      else Inr (rs @ [r]))"

definition catalog_of_body :: "create_body \<Rightarrow> Catalog" where
  "catalog_of_body b =
     \<lparr>package_name = cb_uuid b, title = cb_title b, description = cb_description b,
      author = cb_author b, image_f = cb_image b, tags = cb_tags b, version = cb_version b,
      background_image = cb_background_image b, background_video = cb_background_video b,
      payload = cb_payload b, type_f = cb_type b\<rparr>"


text \<open>
  The handler has no \<open>try\<close> around \<open>catalogAssets.create\<close>: a rejected insert leaves the
  handler (\<open>Inl\<close>) before the directory is looked at, and no reply is sent by the handler.
  The directory is \<open>`${assets}/${body.package_name}/`\<close>, \<open>assets\<close> being the path of
  \<open>../database_assets\<close> beside the module's directory. When \<open>access\<close> rejects, the
  \<open>catch\<close> branch runs \<open>mkdir\<close>, whose rejection leaves the handler as well.
\<close>

definition assets_path :: "string list \<Rightarrow> string option" where
  "assets_path here = fileURLToPath (new_URL_path ''../database_assets'' here)"

definition create_package ::
  "string list \<Rightarrow> parsedDoc \<Rightarrow> server_state \<Rightarrow> headers \<Rightarrow> create_body
     \<Rightarrow> (exn + reply) \<times> server_state" where
  "create_package here cfg s hdrs b =
     (let verify = verifyReq cfg hdrs False (None :: unit option) in
      case error verify of
        Some message \<Rightarrow>
          (Inr (send (StatusBody message) (status_r (status verify) new_reply)), s)
      | None \<Rightarrow>
          (let body = catalog_of_body b in
           case create_row body (rows s) of
             Inl e \<Rightarrow> (Inl e, s)
           | Inr rs' \<Rightarrow>
               (let s1 = s\<lparr>rows := rs'\<rparr> in
                case assets_path here of
                  None \<Rightarrow> (Inl SystemError, s1)
                | Some assets \<Rightarrow>
                    (let dir = assets @ ''/'' @ utf8 (package_name body) @ ''/'' in
                     if access (files s1) dir then
                       (Inr (send (StatusBody ''Package already exists!'')
                               (status_r 500 new_reply)),
                        s1)
                     else
                       (case mkdir (files s1) dir of
                          None \<Rightarrow> (Inl SystemError, s1)
                        | Some fs' \<Rightarrow>
                            (Inr (send (StatusBody ''Package created successfully!'')
                                    (status_r (status verify) new_reply)),
                             s1\<lparr>files := fs'\<rparr>))))))"

subsection \<open>GET /api/catalog-assets/\<close>

text \<open>
  \<open>parseInt(page, 10)\<close>. \<open>parseInt10\<close> is the integer the builtin reads: leading white
  space is skipped, one sign is read, then the longest run of decimal digits; with no
  digit there is none (\<open>NaN\<close>). \<open>parseInt\<close> reads its argument as a string: an absent
  query value is \<open>undefined\<close> and is read as the string \<open>undefined\<close>, a repeated one is
  read as its values joined by commas.
\<close>

definition isWhiteSpace :: "char \<Rightarrow> bool" where
  "isWhiteSpace c =
     (c \<in> set [CHR '' '', CHR 0x09, CHR 0x0A, CHR 0x0B, CHR 0x0C, CHR 0x0D, CHR 0xA0])"

definition isDigit :: "char \<Rightarrow> bool" where
  "isDigit c = (c \<in> set ''0123456789'')"

definition digitVal :: "char \<Rightarrow> int" where
  "digitVal c = int (of_char c) - 48"

definition digitsVal :: "string \<Rightarrow> int" where
  "digitsVal z = foldl (\<lambda>acc c. 10 * acc + digitVal c) 0 z"

definition parseInt10 :: "string \<Rightarrow> int option" where
  "parseInt10 str =
     (let s = dropWhile isWhiteSpace str;
          sign = (case s of c # r \<Rightarrow> if c = CHR ''-'' then - 1 else 1 | [] \<Rightarrow> (1::int));
          s1 = (case s of c # r \<Rightarrow> if c = CHR ''-'' \<or> c = CHR ''+'' then r else s | [] \<Rightarrow> s);
          z = takeWhile isDigit s1
      in if z = [] then None else Some (sign * digitsVal z))"

text \<open>
  A JavaScript number is a double. The numbers of this handler are integers, \<open>NaN\<close> or
  infinite: an integer becomes the nearest double (53 significant bits, ties to even),
  and infinite from \<open>2^1024\<close> on.
\<close>

fun bitLength :: "nat \<Rightarrow> nat" where
  "bitLength n = (if n = 0 then 0 else Suc (bitLength (n div 2)))"

declare bitLength.simps [simp del]

definition roundToDouble :: "nat \<Rightarrow> nat" where
  "roundToDouble m =
     (let k = bitLength m in
      if k \<le> 53 then m
      else (let sh = k - 53;
                q = m div 2 ^ sh;
                r = m mod 2 ^ sh;
                half = 2 ^ (sh - 1)
            in (if half < r \<or> (r = half \<and> odd q) then q + 1 else q) * 2 ^ sh))"

datatype number = NaN | Num int | PosInfinity | NegInfinity

definition toNumber :: "int \<Rightarrow> number" where
  "toNumber x =
     (let a = roundToDouble (nat \<bar>x\<bar>) in
      if 2 ^ 1024 \<le> a then (if x < 0 then NegInfinity else PosInfinity)
      else Num (if x < 0 then - int a else int a))"

definition parseInt :: "string \<Rightarrow> number" where
  "parseInt str = (case parseInt10 str of None \<Rightarrow> NaN | Some m \<Rightarrow> toNumber m)"

text \<open>\<open>parseInt(page, 10) || 1\<close>: \<open>NaN\<close> and \<open>0\<close> are falsy.\<close>

definition pageNum_of :: "string option \<Rightarrow> number" where
  "pageNum_of page =
     (case parseInt (template_str page) of
        NaN \<Rightarrow> Num 1
      | Num n \<Rightarrow> if n = 0 then Num 1 else Num n
      | PosInfinity \<Rightarrow> PosInfinity
      | NegInfinity \<Rightarrow> NegInfinity)"

text \<open>\<open>pageNum < 1\<close> and \<open>(pageNum - 1) * 20\<close>, each operation rounded to a double.\<close>

definition less_than_1 :: "number \<Rightarrow> bool" where
  "less_than_1 x =
     (case x of NaN \<Rightarrow> False | Num n \<Rightarrow> n < 1 | PosInfinity \<Rightarrow> False | NegInfinity \<Rightarrow> True)"

definition offset_of :: "number \<Rightarrow> number" where
  "offset_of pageNum =
     (case pageNum of
        Num n \<Rightarrow> (case toNumber (n - 1) of Num k \<Rightarrow> toNumber (k * 20) | other \<Rightarrow> other)
      | other \<Rightarrow> other)"

text \<open>
  \<open>catalogAssets.findAll({ offset, limit })\<close> on the rows in the engine's order. The
  offset is written into the query as JavaScript prints it. Both engines reject what is
  not a 64-bit integer (an infinite offset, one of magnitude \<open>2^63\<close> or more); a negative
  offset is read as 0 by SQLite and rejected by PostgreSQL. A table has fewer than
  \<open>2^53\<close> rows, so from \<open>2^53\<close> on, where the printed offset may differ from the double
  in its last digits, the page is empty either way; the row count is exact.
\<close>

definition findAll :: "parsedDoc \<Rightarrow> Catalog list \<Rightarrow> number \<Rightarrow> nat \<Rightarrow> exn + Catalog list" where
  "findAll cfg rs offset limit =
     (case offset of
        Num n \<Rightarrow>
          (if 2 ^ 63 \<le> \<bar>n\<bar> then Inl SequelizeDatabaseError
           else if n < 0 then
             (if db_postgres cfg then Inl SequelizeDatabaseError else Inr (take limit rs))
           else Inr (take limit (drop (nat n) rs)))
      | other \<Rightarrow> Inl SequelizeDatabaseError)"

definition json_nullable :: "string option \<Rightarrow> json" where
  "json_nullable v = (case v of None \<Rightarrow> JNull | Some s \<Rightarrow> JStr s)"

text \<open>The object literal stored under \<open>acc[asset.package_name]\<close>.\<close>

definition asset_entry :: "Catalog \<Rightarrow> json" where
  "asset_entry asset =
     JObj [(''title'', JStr (title asset)),
           (''description'', JStr (description asset)),
           (''author'', JStr (author asset)),
           (''image'', JStr (image_f asset)),
           (''tags'', tags asset),
           (''version'', JStr (version asset)),
           (''background_image'', json_nullable (background_image asset)),
           (''background_video'', json_nullable (background_video asset)),
           (''payload'', JStr (payload asset)),
           (''type'', JStr (type_f asset))]"

text \<open>
  \<open>acc[key] = value\<close> on the object \<open>acc\<close>: a key that is already there gets the new
  value; the key \<open>__proto__\<close> sets the prototype of \<open>acc\<close> and adds no member.
\<close>

definition assign :: "string \<Rightarrow> json \<Rightarrow> (string \<times> json) list \<Rightarrow> (string \<times> json) list" where
  "assign key v acc = (if key = ''__proto__'' then acc else AList.update key v acc)"

definition reduce_assets :: "Catalog list \<Rightarrow> (string \<times> json) list" where
  "reduce_assets dbAssets =
     foldl (\<lambda>acc asset. assign (package_name asset) (asset_entry asset) acc) [] dbAssets"

definition Math_ceil :: "real \<Rightarrow> int" where
  "Math_ceil x = \<lceil>x\<rceil>"

text \<open>
  There is no \<open>return\<close> after the 400 is sent: the handler goes on, and the second \<open>send\<close>
  happens under the status code set before. An exception of the store is caught and
  answered with 500.
\<close>

definition catalog_assets :: "parsedDoc \<Rightarrow> Catalog list \<Rightarrow> string option \<Rightarrow> reply" where
  "catalog_assets cfg rs page =
     (let pageNum = pageNum_of page;
          r1 = (if less_than_1 pageNum
                then send (ErrorBody ''Page must be a positive number!'') (status_r 400 new_reply)
                else new_reply);
          offset = offset_of pageNum;
          totalItems = length rs
      in case findAll cfg rs offset 20 of
           Inl e \<Rightarrow> send (ErrorBody ''An error occured'') (status_r 500 r1)
         | Inr dbAssets \<Rightarrow>
             send (JObj [(''assets'', JObj (reduce_assets dbAssets)),
                         (''pages'', JNum (Math_ceil (real totalItems / 20)))]) r1)"

subsection \<open>GET /api/packages/:package\<close>

definition details :: "Catalog \<Rightarrow> json" where
  "details packageRow =
     JObj [(''title'', JStr (title packageRow)),
           (''description'', JStr (description packageRow)),
           (''image'', JStr (image_f packageRow)),
           (''author'', JStr (author packageRow)),
           (''tags'', tags packageRow),
           (''version'', JStr (version packageRow)),
           (''background_image'', json_nullable (background_image packageRow)),
           (''background_video'', json_nullable (background_video packageRow)),
           (''payload'', JStr (payload packageRow)),
           (''type'', JStr (type_f packageRow))]"

definition get_package :: "Catalog list \<Rightarrow> string \<Rightarrow> reply" where
  "get_package rs package =
     (case find (\<lambda>r. package_name r = package) rs of
        None \<Rightarrow> send (ErrorBody ''Package not found!'') (status_r 404 new_reply)
      | Some packageRow \<Rightarrow> send (details packageRow) new_reply)"

section \<open>Nebula marketplace: client package view ([...packageName].astro)\<close>

subsection \<open>Reading the fetched record\<close>

text \<open>Property access on a parsed JSON value (\<open>None\<close> is \<open>undefined\<close>) and truthiness.\<close>

fun get_prop :: "json \<Rightarrow> string \<Rightarrow> json option" where
  "get_prop (JObj kvs) k = map_of kvs k"
| "get_prop _ k = None"

fun truthy :: "json option \<Rightarrow> bool" where
  "truthy None = False"
| "truthy (Some JNull) = False"
| "truthy (Some (JBool b)) = b"
| "truthy (Some (JNum n)) = (n \<noteq> 0)"
| "truthy (Some (JStr s)) = (s \<noteq> [])"
| "truthy (Some (JArr xs)) = True"
| "truthy (Some (JObj kvs)) = True"

text \<open>
  The elements the template renders for the media of a package; each carries the value
  placed in its URL after \<open>/packages/<packageName>/\<close>.
\<close>

datatype element =
    ErrorHeading
  | Video "json option"
  | BackgroundImageDiv "json option"
  | Img "json option"

text \<open>
  The three conditional blocks of the template, in their order. The second reads the
  property \<open>backgroundImage\<close>.
\<close>

definition media :: "json \<Rightarrow> element list" where
  "media assetsJson =
     (if truthy (get_prop assetsJson ''background_video'')
      then [Video (get_prop assetsJson ''background_video'')] else []) @
     (if truthy (get_prop assetsJson ''backgroundImage'')
      then [BackgroundImageDiv (get_prop assetsJson ''backgroundImage'')] else []) @
     (if \<not> truthy (get_prop assetsJson ''background_video'') \<and>
         \<not> truthy (get_prop assetsJson ''backgroundImage'')
      then [Img (get_prop assetsJson ''image'')] else [])"

text \<open>The frontmatter's \<open>fetch\<close> of \<open>/api/packages/<packageName>\<close> and \<open>response.json()\<close>.\<close>

definition fetch_package :: "Catalog list \<Rightarrow> string \<Rightarrow> json" where
  "fetch_package rs packageName =
     (case sent (get_package rs packageName) of
        [] \<Rightarrow> JNull
      | (code, j) # rest \<Rightarrow> j)"

definition package_view :: "Catalog list \<Rightarrow> string \<Rightarrow> element list" where
  "package_view rs packageName =
     (let assetsJson = fetch_package rs packageName in
      if truthy (get_prop assetsJson ''error'') then [ErrorHeading] else media assetsJson)"

subsection \<open>Install state on page load\<close>

text \<open>
  The two collections of the local settings store, as \<open>JSON.parse\<close> returns them
  (\<open>None\<close>: the key is not set, \<open>getItem\<close> gives \<open>null\<close>).
\<close>

record plugin_descr =
  name_f :: string
  plugin_type :: string
  remove_f :: "bool option"

record localStorage =
  themes :: "string list option"
  plugins :: "plugin_descr list option"

text \<open>
  The two buttons: whether the class \<open>hidden\<close> is on each. The template renders the
  install button without it and the uninstall button with it.
\<close>

record buttons =
  install_hidden :: bool
  uninstall_hidden :: bool

definition rendered_buttons :: buttons where
  "rendered_buttons = \<lparr>install_hidden = False, uninstall_hidden = True\<rparr>"

definition fn :: "localStorage \<Rightarrow> string \<Rightarrow> buttons \<Rightarrow> buttons" where
  "fn ls packageName b =
     (let cssItems = (case themes ls of None \<Rightarrow> [] | Some xs \<Rightarrow> xs);
          cssItemExists = (packageName \<in> set cssItems);
          pluginItems = (case plugins ls of None \<Rightarrow> [] | Some xs \<Rightarrow> xs);
          pluginItemExists =
            find (\<lambda>p. name_f p = packageName \<and> remove_f p \<noteq> Some True) pluginItems
      in if cssItemExists \<or> pluginItemExists \<noteq> None
         then b\<lparr>uninstall_hidden := False, install_hidden := True\<rparr>
         else b)"

datatype install_state = NotInstalled | Installed

text \<open>The state the view shows: which of the two buttons is visible.\<close>

definition shown_state :: "buttons \<Rightarrow> install_state option" where
  "shown_state b =
     (if install_hidden b \<and> \<not> uninstall_hidden b then Some Installed
      else if \<not> install_hidden b \<and> uninstall_hidden b then Some NotInstalled
      else None)"

section \<open>Example values\<close>

definition example_cfg :: parsedDoc where
  "example_cfg = \<lparr>marketplace_enabled = True, marketplace_psk = ''s3cret'', db_postgres = False\<rparr>"

definition aurora :: Catalog where
  "aurora =
     \<lparr>package_name = ''pkg-1'', title = ''Aurora'', description = ''A theme'', author = ''ann'',
      image_f = ''cover.png'', tags = JNull, version = ''1.0.0'',
      background_image = Some ''bg.png'', background_video = None,
      payload = ''aurora.css'', type_f = ''theme''\<rparr>"

definition aurora_body :: create_body where
  "aurora_body =
     \<lparr>cb_uuid = ''pkg-1'', cb_title = ''Aurora'', cb_image = ''cover.png'', cb_author = ''ann'',
      cb_version = ''1.0.0'', cb_description = ''A theme'', cb_tags = JNull,
      cb_payload = ''aurora.css'', cb_background_video = None,
      cb_background_image = Some ''bg.png'', cb_type = ''theme''\<rparr>"

definition good_headers :: headers where
  "good_headers = \<lparr>psk = Some ''s3cret'', packagename = Some ''pkg-1''\<rparr>"

text \<open>
  A deployment with the server module in \<open>/app\<close>, so that \<open>../database_assets\<close> is
  \<open>/database_assets\<close>: without packages, and with the directory of \<open>pkg-1\<close>.
\<close>

definition example_here :: "string list" where
  "example_here = [''app'']"

definition empty_fs :: node where
  "empty_fs = Dir [''app'' \<mapsto> Dir Map.empty, ''database_assets'' \<mapsto> Dir Map.empty]"

definition pkg1_fs :: node where
  "pkg1_fs =
     Dir [''app'' \<mapsto> Dir Map.empty,
          ''database_assets'' \<mapsto> Dir [''pkg-1'' \<mapsto> Dir Map.empty]]"

definition empty_state :: server_state where
  "empty_state = \<lparr>rows = [], files = empty_fs\<rparr>"

definition example_file :: upload_file where
  "example_file = \<lparr>filename = ''bg.png'', file_f = [0x89, 0x50, 0x4E, 0x47]\<rparr>"


section \<open>Properties\<close>

subsection \<open>verifyReq\<close>



lemmas reply_defs = send_def status_r_def new_reply_def StatusBody_def ErrorBody_def

subsection \<open>Evaluating paths\<close>

lemma char_eq_char_of: "(c = char_of n) = (take_bit 8 n = (of_char c :: nat))"
  using char_of_eq_iff [of n c] by (metis (no_types))

lemmas char_defs = char_of_eq_iff char_eq_char_of

lemmas url_defs = new_URL_path_def strip_c0_space_def c0_or_space_def remove_tab_newline_def
  end_segment_def double_dot_def single_dot_def lower_e_def windows_drive_letter_def shorten_def
  normalized_drive_letter_def ascii_alpha_def decode_segment_def hexVal_def cont_def utf8_def

lemmas fs_defs = access_def mkdir_def open_write_def components_def bad_path_def PATH_MAX_def
  NAME_MAX_def readFile_def

lemma example_assets_path: "assets_path example_here = Some ''/database_assets''"
  by (simp add: assets_path_def example_here_def url_defs)

lemma pkg1_missing: "access empty_fs ''/database_assets/pkg-1/'' = False"
  by (simp add: fs_defs empty_fs_def)

lemma pkg1_mkdir: "mkdir empty_fs ''/database_assets/pkg-1/'' = Some pkg1_fs"
  by (simp add: fs_defs empty_fs_def pkg1_fs_def)

lemma pkg1_present: "access pkg1_fs ''/database_assets/pkg-1/'' = True"
  by (simp add: fs_defs pkg1_fs_def)

lemma utf8_pkg1: "utf8 ''pkg-1'' = ''pkg-1''"
  by (simp add: utf8_def)

subsection \<open>The gate of the write endpoints\<close>




subsection \<open>Upload requests that miss a part\<close>

text \<open>
  C5: an upload-asset request that passes the feature-flag and credential checks and has
  no \<open>packagename\<close> header is rejected with a 4xx status. In the code the status of this
  branch of \<open>verifyReq\<close> is 500, with the message \<open>No packagename defined!\<close>; the state is
  unchanged.
\<close>

theorem upload_without_packagename_replies_500:
  "upload_asset here (cfg\<lparr>marketplace_enabled := True\<rparr>) s
       \<lparr>psk = Some (marketplace_psk cfg), packagename = None\<rparr> (Resolves data) =
     (Inr \<lparr>statusCode = 500, sent = [(500, StatusBody ''No packagename defined!'')]\<rparr>, s)"
  by (simp add: upload_asset_def verifyReq_def falsy_str_def reply_defs)

text \<open>The next branch of \<open>verifyReq\<close>, the missing file, does answer 400.\<close>

lemma upload_without_file_replies_400:
  "upload_asset here (cfg\<lparr>marketplace_enabled := True\<rparr>) s
       \<lparr>psk = Some (marketplace_psk cfg), packagename = Some (c # p)\<rparr> (Resolves None) =
     (Inr \<lparr>statusCode = 400, sent = [(400, StatusBody ''No file uploaded!'')]\<rparr>, s)"
  by (simp add: upload_asset_def verifyReq_def falsy_str_def reply_defs)

subsection \<open>create-package\<close>

lemma verifyReq_create_ok:
  "marketplace_enabled cfg \<Longrightarrow> psk hdrs = Some (marketplace_psk cfg) \<Longrightarrow>
     verifyReq cfg hdrs False data = \<lparr>status = 200, error = None\<rparr>"
  by (simp add: verifyReq_def)

lemma create_package_row_present:
  assumes "marketplace_enabled cfg" and "psk hdrs = Some (marketplace_psk cfg)"
  shows "cb_uuid b \<in> set (map package_name (rows (snd (create_package here cfg s hdrs b))))"
  using assms
  by (auto simp: create_package_def verifyReq_create_ok create_row_def catalog_of_body_def Let_def
      split: option.splits)

lemma create_package_existing_row:
  assumes "marketplace_enabled cfg" and "psk hdrs = Some (marketplace_psk cfg)"
    and "cb_uuid b \<in> set (map package_name (rows s))"
  shows "create_package here cfg s hdrs b = (Inl SequelizeUniqueConstraintError, s)"
  using assms
  by (simp add: create_package_def verifyReq_create_ok create_row_def catalog_of_body_def)

text \<open>
  After a create-package call that passed the gate, every further call with the same
  identifier and the right \<open>psk\<close> is left by the rejection of the insert: no reply is
  sent by the handler, and the state is unchanged.
\<close>

lemma second_create_rejects:
  assumes "marketplace_enabled cfg"
    and "psk h1 = Some (marketplace_psk cfg)"
    and "psk h2 = Some (marketplace_psk cfg)"
    and "cb_uuid b2 = cb_uuid b1"
  shows "create_package here cfg (snd (create_package here cfg s h1 b1)) h2 b2 =
           (Inl SequelizeUniqueConstraintError, snd (create_package here cfg s h1 b1))"
proof -
  have "cb_uuid b2 \<in> set (map package_name (rows (snd (create_package here cfg s h1 b1))))"
    using create_package_row_present [OF assms(1,2), of b1 here s] assms(4) by simp
  then show ?thesis
    by (rule create_package_existing_row [OF assms(1,3)])
qed

text \<open>The reply \<open>Package already exists!\<close> is sent only for an identifier new to the table.\<close>

lemma already_exists_needs_absent_row:
  assumes "fst (create_package here cfg s hdrs b) =
             Inr \<lparr>statusCode = 500, sent = [(500, StatusBody ''Package already exists!'')]\<rparr>"
  shows "cb_uuid b \<notin> set (map package_name (rows s))"
  using assms
  by (auto simp: create_package_def verifyReq_def create_row_def catalog_of_body_def Let_def
      reply_defs split: option.splits if_splits)

lemma first_create_example:
  "create_package example_here example_cfg empty_state good_headers aurora_body =
     (Inr \<lparr>statusCode = 200, sent = [(200, StatusBody ''Package created successfully!'')]\<rparr>,
      \<lparr>rows = [aurora], files = pkg1_fs\<rparr>)"
proof -
  have e: "marketplace_enabled example_cfg" by (simp add: example_cfg_def)
  have p: "psk good_headers = Some (marketplace_psk example_cfg)"
    by (simp add: example_cfg_def good_headers_def)
  have c: "catalog_of_body aurora_body = aurora"
    by (simp add: catalog_of_body_def aurora_body_def aurora_def)
  have n: "package_name aurora = ''pkg-1''" by (simp add: aurora_def)
  show ?thesis
    by (simp add: create_package_def verifyReq_create_ok [OF e p] create_row_def c n
        example_assets_path utf8_pkg1 pkg1_missing pkg1_mkdir empty_state_def reply_defs)
qed

text \<open>
  C3: calling create-package twice in succession with the same identifier makes the
  second call fail with a Conflict report, the directory state of the first call
  unchanged. In the code the second call sends no report: \<open>catalogAssets.create\<close> is
  outside the \<open>try\<close>, its unique-constraint rejection leaves the handler, and the
  conflict reply \<open>Package already exists!\<close> is never reached. The state is unchanged.
\<close>

theorem second_create_sends_no_conflict_reply:
  "create_package example_here example_cfg empty_state good_headers aurora_body =
     (Inr \<lparr>statusCode = 200, sent = [(200, StatusBody ''Package created successfully!'')]\<rparr>,
      \<lparr>rows = [aurora], files = pkg1_fs\<rparr>) \<and>
   create_package example_here example_cfg \<lparr>rows = [aurora], files = pkg1_fs\<rparr> good_headers
       aurora_body =
     (Inl SequelizeUniqueConstraintError, \<lparr>rows = [aurora], files = pkg1_fs\<rparr>)"
proof -
  have e: "marketplace_enabled example_cfg" by (simp add: example_cfg_def)
  have p: "psk good_headers = Some (marketplace_psk example_cfg)"
    by (simp add: example_cfg_def good_headers_def)
  show ?thesis
    using second_create_rejects [OF e p p refl, of example_here empty_state aurora_body]
    by (simp add: first_create_example)
qed

text \<open>
  C4: when create-package passes the gate, inserts the record (the identifier is not in
  the table yet) and then finds the asset directory already there (\<open>access\<close> resolves),
  it replies 500 with \<open>{status: 'Package already exists!'}\<close>, and the record inserted
  just before stays in the table: the insert and the directory check are not atomic.
\<close>

theorem conflicting_create_keeps_row:
  assumes "marketplace_enabled cfg"
    and "psk hdrs = Some (marketplace_psk cfg)"
    and "cb_uuid b \<notin> set (map package_name (rows s))"
    and "assets_path here = Some assets"
    and "access (files s) (assets @ ''/'' @ utf8 (cb_uuid b) @ ''/'')"
  shows "create_package here cfg s hdrs b =
           (Inr \<lparr>statusCode = 500, sent = [(500, StatusBody ''Package already exists!'')]\<rparr>,
            s\<lparr>rows := rows s @ [catalog_of_body b]\<rparr>)"
  using assms
  by (simp add: create_package_def verifyReq_create_ok create_row_def catalog_of_body_def
      reply_defs)

theorem conflicting_create_keeps_row_witness:
  "marketplace_enabled example_cfg \<and>
   psk good_headers = Some (marketplace_psk example_cfg) \<and>
   cb_uuid aurora_body \<notin> set (map package_name (rows \<lparr>rows = [], files = pkg1_fs\<rparr>)) \<and>
   assets_path example_here = Some ''/database_assets'' \<and>
   access (files \<lparr>rows = [], files = pkg1_fs\<rparr>)
     (''/database_assets'' @ ''/'' @ utf8 (cb_uuid aurora_body) @ ''/'') \<and>
   create_package example_here example_cfg \<lparr>rows = [], files = pkg1_fs\<rparr> good_headers
       aurora_body =
     (Inr \<lparr>statusCode = 500, sent = [(500, StatusBody ''Package already exists!'')]\<rparr>,
      \<lparr>rows = [aurora], files = pkg1_fs\<rparr>)"
proof -
  have e: "marketplace_enabled example_cfg" by (simp add: example_cfg_def)
  have p: "psk good_headers = Some (marketplace_psk example_cfg)"
    by (simp add: example_cfg_def good_headers_def)
  have r: "cb_uuid aurora_body \<notin> set (map package_name (rows \<lparr>rows = [], files = pkg1_fs\<rparr>))"
    by simp
  have u: "cb_uuid aurora_body = ''pkg-1''" by (simp add: aurora_body_def)
  have a: "access (files \<lparr>rows = [], files = pkg1_fs\<rparr>)
             (''/database_assets'' @ ''/'' @ utf8 (cb_uuid aurora_body) @ ''/'')"
    using pkg1_present by (simp add: u utf8_pkg1)
  have c: "catalog_of_body aurora_body = aurora"
    by (simp add: catalog_of_body_def aurora_body_def aurora_def)
  show ?thesis
    using conflicting_create_keeps_row [OF e p r example_assets_path a]
      e p r a example_assets_path
    by (simp add: c)
qed

subsection \<open>upload-asset\<close>

lemma nopkg_target:
  "fileURLToPath (new_URL_path (''../database_assets/'' @ ''nopkg#x'' @ ''/'' @ ''bg.png'')
     example_here) = Some ''/database_assets/nopkg''"
  by (simp add: example_here_def url_defs)

lemma nopkg_write:
  "open_write empty_fs ''/database_assets/nopkg'' bytes =
     Some (Dir [''app'' \<mapsto> Dir Map.empty,
                ''database_assets'' \<mapsto> Dir [''nopkg'' \<mapsto> File bytes]])"
  by (simp add: fs_defs empty_fs_def)

lemma big_target:
  "fileURLToPath (new_URL_path (''../database_assets/'' @ ''pkg-1'' @ ''/'' @ ''big.bin'')
     example_here) = Some ''/database_assets/pkg-1/big.bin''"
  by (simp add: example_here_def url_defs)

lemma big_write:
  "open_write pkg1_fs ''/database_assets/pkg-1/big.bin'' bytes =
     Some (Dir [''app'' \<mapsto> Dir Map.empty,
                ''database_assets'' \<mapsto> Dir [''pkg-1'' \<mapsto> Dir [''big.bin'' \<mapsto> File bytes]]])"
  by (simp add: fs_defs pkg1_fs_def)

lemma verifyReq_upload_ok:
  "marketplace_enabled cfg \<Longrightarrow> psk hdrs = Some (marketplace_psk cfg) \<Longrightarrow>
   packagename hdrs = Some p \<Longrightarrow> p \<noteq> [] \<Longrightarrow>
     verifyReq cfg hdrs True (Some d) = \<lparr>status = 200, error = None\<rparr>"
  by (simp add: verifyReq_def falsy_str_def)

text \<open>
  C7: an upload-asset call that passes the gate fails when the asset directory of the
  target package does not exist, and with an existing package and a valid file stream it
  leaves a file with the bytes of the uploaded stream. The code does neither always.
  The target is built with \<open>new URL\<close>, so the header \<open>nopkg#x\<close>, for which no directory
  exists, is cut at the \<open>#\<close>: the upload is written to the file \<open>database_assets/nopkg\<close>
  and answered with 200. And the stream ends at 1 MiB: a file of 1048577 bytes sent to
  the existing package \<open>pkg-1\<close> is answered with 200 and stored with 1048576 bytes.
\<close>

theorem upload_target_and_size_slips:
  "lookup empty_fs [''database_assets'', ''nopkg#x''] = None \<and>
   upload_asset example_here example_cfg empty_state
       \<lparr>psk = Some ''s3cret'', packagename = Some ''nopkg#x''\<rparr> (Resolves (Some example_file)) =
     (Inr \<lparr>statusCode = 200, sent = [(200, StatusBody ''File uploaded successfully!'')]\<rparr>,
      \<lparr>rows = [],
       files = Dir [''app'' \<mapsto> Dir Map.empty,
                    ''database_assets'' \<mapsto> Dir [''nopkg'' \<mapsto> File [0x89, 0x50, 0x4E, 0x47]]]\<rparr>) \<and>
   upload_asset example_here example_cfg \<lparr>rows = [aurora], files = pkg1_fs\<rparr>
       \<lparr>psk = Some ''s3cret'', packagename = Some ''pkg-1''\<rparr>
       (Resolves (Some \<lparr>filename = ''big.bin'', file_f = replicate 1048577 0\<rparr>)) =
     (Inr \<lparr>statusCode = 200, sent = [(200, StatusBody ''File uploaded successfully!'')]\<rparr>,
      \<lparr>rows = [aurora],
       files = Dir [''app'' \<mapsto> Dir Map.empty,
                    ''database_assets'' \<mapsto>
                      Dir [''pkg-1'' \<mapsto> Dir [''big.bin'' \<mapsto> File (replicate 1048576 0)]]]\<rparr>)"
proof -
  have e: "marketplace_enabled example_cfg" by (simp add: example_cfg_def)
  have k: "marketplace_psk example_cfg = ''s3cret''" by (simp add: example_cfg_def)
  have v: "verifyReq example_cfg \<lparr>psk = Some ''s3cret'', packagename = Some p\<rparr> True (Some d) =
             \<lparr>status = 200, error = None\<rparr>" if "p \<noteq> []" for p and d :: upload_file
    using that by (simp add: verifyReq_upload_ok [OF e] k)
  have none: "lookup empty_fs [''database_assets'', ''nopkg#x''] = None"
    by (simp add: empty_fs_def)
  have first: "upload_asset example_here example_cfg empty_state
       \<lparr>psk = Some ''s3cret'', packagename = Some ''nopkg#x''\<rparr> (Resolves (Some example_file)) =
     (Inr \<lparr>statusCode = 200, sent = [(200, StatusBody ''File uploaded successfully!'')]\<rparr>,
      \<lparr>rows = [],
       files = Dir [''app'' \<mapsto> Dir Map.empty,
                    ''database_assets'' \<mapsto> Dir [''nopkg'' \<mapsto> File [0x89, 0x50, 0x4E, 0x47]]]\<rparr>)"
    using nopkg_target
    by (simp add: upload_asset_def v template_str_def example_file_def nopkg_write
        file_stream_def fileSize_def empty_state_def reply_defs)
  have second: "upload_asset example_here example_cfg \<lparr>rows = [aurora], files = pkg1_fs\<rparr>
       \<lparr>psk = Some ''s3cret'', packagename = Some ''pkg-1''\<rparr>
       (Resolves (Some \<lparr>filename = ''big.bin'', file_f = replicate 1048577 0\<rparr>)) =
     (Inr \<lparr>statusCode = 200, sent = [(200, StatusBody ''File uploaded successfully!'')]\<rparr>,
      \<lparr>rows = [aurora],
       files = Dir [''app'' \<mapsto> Dir Map.empty,
                    ''database_assets'' \<mapsto>
                      Dir [''pkg-1'' \<mapsto> Dir [''big.bin'' \<mapsto> File (replicate 1048576 0)]]]\<rparr>)"
    using big_target
    by (simp add: upload_asset_def v template_str_def big_write file_stream_def fileSize_def
        reply_defs)
  show ?thesis using none first second by simp
qed

text \<open>
  A file of four bytes sent to the existing package \<open>pkg-1\<close> is stored and read back; sent
  to a package without a directory, it is answered with the upload failure.
\<close>

lemma upload_example_round_trip:
  "fst (upload_asset example_here example_cfg \<lparr>rows = [aurora], files = pkg1_fs\<rparr> good_headers
          (Resolves (Some example_file))) =
     Inr \<lparr>statusCode = 200, sent = [(200, StatusBody ''File uploaded successfully!'')]\<rparr> \<and>
   readFile (files (snd (upload_asset example_here example_cfg
                           \<lparr>rows = [aurora], files = pkg1_fs\<rparr> good_headers
                           (Resolves (Some example_file)))))
     [''database_assets'', ''pkg-1'', ''bg.png''] = Some [0x89, 0x50, 0x4E, 0x47] \<and>
   upload_asset example_here example_cfg empty_state good_headers (Resolves (Some example_file)) =
     (Inr \<lparr>statusCode = 500, sent = [(500, StatusBody upload_failed)]\<rparr>, empty_state)"
proof -
  have e: "marketplace_enabled example_cfg" by (simp add: example_cfg_def)
  have p: "psk good_headers = Some (marketplace_psk example_cfg)"
    by (simp add: example_cfg_def good_headers_def)
  have n: "packagename good_headers = Some ''pkg-1''" by (simp add: good_headers_def)
  have v: "verifyReq example_cfg good_headers True (Some example_file) =
             \<lparr>status = 200, error = None\<rparr>"
    by (rule verifyReq_upload_ok [OF e p n]) simp
  have t: "fileURLToPath (new_URL_path (''../database_assets/'' @ ''pkg-1'' @ ''/'' @ ''bg.png'')
             example_here) = Some ''/database_assets/pkg-1/bg.png''"
    by (simp add: example_here_def url_defs)
  have w: "open_write pkg1_fs ''/database_assets/pkg-1/bg.png'' bytes =
     Some (Dir [''app'' \<mapsto> Dir Map.empty,
                ''database_assets'' \<mapsto> Dir [''pkg-1'' \<mapsto> Dir [''bg.png'' \<mapsto> File bytes]]])"
    for bytes
    by (simp add: fs_defs pkg1_fs_def)
  have w0: "open_write empty_fs ''/database_assets/pkg-1/bg.png'' bytes = None" for bytes
    by (simp add: fs_defs empty_fs_def)
  have f: "filename example_file = ''bg.png''" "file_f example_file = [0x89, 0x50, 0x4E, 0x47]"
    by (simp_all add: example_file_def)
  show ?thesis
    using t
    by (simp add: upload_asset_def v n template_str_def f w w0 file_stream_def
        fileSize_def empty_state_def readFile_def reply_defs)
qed

subsection \<open>The client package view\<close>

text \<open>
  C9: on a page load, starting from the buttons as rendered, the view shows Installed
  (install button hidden, uninstall button visible) if and only if the package name is in
  the persisted theme collection or is the name of a persisted plugin descriptor whose
  \<open>remove\<close> is not \<open>true\<close>; otherwise it shows NotInstalled (install button visible,
  uninstall button hidden). The result depends on the persisted storage only.
\<close>

theorem install_state_on_load:
  "shown_state (fn ls packageName rendered_buttons) =
     Some (if packageName \<in> set (case themes ls of None \<Rightarrow> [] | Some xs \<Rightarrow> xs) \<or>
              (\<exists>p \<in> set (case plugins ls of None \<Rightarrow> [] | Some xs \<Rightarrow> xs).
                 name_f p = packageName \<and> remove_f p \<noteq> Some True)
           then Installed else NotInstalled)"
proof -
  have "(find P xs \<noteq> None) = (\<exists>p \<in> set xs. P p)" for P :: "plugin_descr \<Rightarrow> bool" and xs
    by (auto simp: find_None_iff)
  then show ?thesis
    by (cases "themes ls"; cases "plugins ls")
      (simp_all add: fn_def shown_state_def rendered_buttons_def Let_def)
qed

lemma media_of_details:
  "media (details r) =
     (case background_video r of
        None \<Rightarrow> [Img (Some (JStr (image_f r)))]
      | Some v \<Rightarrow> if v = [] then [Img (Some (JStr (image_f r)))] else [Video (Some (JStr v))])"
  by (simp add: media_def details_def json_nullable_def split: option.splits)

text \<open>
  C1: the media branch is chosen in the order video, background image, plain image. The
  template tests \<open>assetsJson.backgroundImage\<close>, a property the record fetched from
  \<open>/api/packages/\<close> never has (the server sends \<open>background_image\<close>): a record with a
  background image and no video is rendered with the plain image.
\<close>

theorem background_image_record_renders_plain_image:
  "package_view [aurora] ''pkg-1'' = [Img (Some (JStr ''cover.png''))]"
proof -
  have "fetch_package [aurora] ''pkg-1'' = details aurora"
    by (simp add: fetch_package_def get_package_def aurora_def reply_defs)
  moreover have "get_prop (details aurora) ''error'' = None"
    by (simp add: details_def)
  ultimately show ?thesis
    by (simp add: package_view_def media_of_details) (simp add: aurora_def)
qed

text \<open>No fetched record reaches the background-image block.\<close>

lemma details_no_backgroundImage: "get_prop (details r) ''backgroundImage'' = None"
  by (simp add: details_def)

lemma package_view_never_background_image:
  "BackgroundImageDiv v \<notin> set (package_view rs packageName)"
  by (auto simp: package_view_def fetch_package_def get_package_def Let_def
      reply_defs media_def details_no_backgroundImage split: option.splits)

subsection \<open>Numbers\<close>

lemma bitLength_numeral [simp]:
  "bitLength (numeral (Num.Bit0 n)) = Suc (bitLength (numeral n))"
  "bitLength (numeral (Num.Bit1 n)) = Suc (bitLength (numeral n))"
  "bitLength (numeral Num.One) = 1"
  "bitLength (Suc 0) = 1"
  "bitLength 0 = 0"
  by (subst bitLength.simps,
      simp add: numeral_Bit0_div_2 numeral_Bit1_div_2 bitLength.simps [of 0])+

lemma bitLength_ge: "0 < n \<Longrightarrow> 2 ^ (bitLength n - 1) \<le> n"
proof (induction n rule: bitLength.induct)
  case (1 n)
  show ?case
  proof (cases "n div 2 = 0")
    case True
    then have "bitLength n = 1"
      using 1(2) by (subst bitLength.simps) (simp add: bitLength.simps [of 0])
    then show ?thesis using 1(2) by simp
  next
    case False
    with 1 have ih: "2 ^ (bitLength (n div 2) - 1) \<le> n div 2" by simp
    have pos: "0 < bitLength (n div 2)" using False by (subst bitLength.simps) simp
    have "bitLength n = Suc (bitLength (n div 2))" using 1(2) by (subst bitLength.simps) simp
    then have "(2::nat) ^ (bitLength n - 1) = 2 * 2 ^ (bitLength (n div 2) - 1)"
      using pos by (cases "bitLength (n div 2)") simp_all
    then show ?thesis using ih by linarith
  qed
qed

lemma bitLength_le: "n < 2 ^ w \<Longrightarrow> bitLength n \<le> w"
proof (rule ccontr)
  assume lt: "n < 2 ^ w" and "\<not> bitLength n \<le> w"
  then have w: "w \<le> bitLength n - 1" by simp
  have "0 < n" using \<open>\<not> bitLength n \<le> w\<close> by (cases "n = 0") simp_all
  then have "2 ^ (bitLength n - 1) \<le> n" by (rule bitLength_ge)
  moreover have "(2::nat) ^ w \<le> 2 ^ (bitLength n - 1)" using w by (rule power_increasing) simp
  ultimately show False using lt by linarith
qed

text \<open>Below \<open>2^53\<close> every integer is a double; from \<open>2^53\<close> on the double is at least \<open>2^53\<close>.\<close>

lemma roundToDouble_exact: "m < 2 ^ 53 \<Longrightarrow> roundToDouble m = m"
  using bitLength_le [of m 53] by (simp add: roundToDouble_def)

lemma roundToDouble_ge:
  assumes "2 ^ 53 \<le> m"
  shows "2 ^ 53 \<le> roundToDouble m"
proof -
  define k where "k = bitLength m"
  have k: "53 < k"
  proof (rule ccontr)
    assume "\<not> 53 < k"
    then have "bitLength m \<le> 53" by (simp add: k_def)
    moreover have "m < 2 ^ bitLength m"
    proof (induction m rule: bitLength.induct)
      case (1 n)
      show ?case
      proof (cases "n = 0")
        case True then show ?thesis by simp
      next
        case False
        with 1 have "n div 2 < 2 ^ bitLength (n div 2)" by simp
        then have "n < 2 * 2 ^ bitLength (n div 2)" by linarith
        then show ?thesis using False by (subst bitLength.simps) simp
      qed
    qed
    moreover have "(2::nat) ^ bitLength m \<le> 2 ^ 53"
      using \<open>bitLength m \<le> 53\<close> by (rule power_increasing) simp
    ultimately show False using assms by linarith
  qed
  define sh where "sh = k - 53"
  have sh: "0 < sh" "k - 1 = 52 + sh" using k by (simp_all add: sh_def)
  have "0 < m" using assms by (simp add: order.strict_trans2 [OF _ assms])
  then have "2 ^ (k - 1) \<le> m" using bitLength_ge by (simp add: k_def)
  moreover have e: "(2::nat) ^ (k - 1) = 2 ^ 52 * 2 ^ sh" unfolding sh(2) by (rule power_add)
  ultimately have "2 ^ 52 * 2 ^ sh \<le> m" by (simp only:)
  then have q: "2 ^ 52 \<le> m div 2 ^ sh"
    by (simp add: less_eq_div_iff_mult_less_eq)
  have "(2::nat) ^ 1 \<le> 2 ^ sh" using sh(1) by (intro power_increasing) simp_all
  then have two: "(2::nat) \<le> 2 ^ sh" by simp
  have "(2::nat) ^ 53 = 2 ^ 52 * 2" by simp
  also have "\<dots> \<le> (m div 2 ^ sh) * 2 ^ sh" using q two by (rule mult_le_mono)
  finally have base: "2 ^ 53 \<le> (m div 2 ^ sh) * 2 ^ sh" .
  have "(m div 2 ^ sh) * 2 ^ sh \<le> (m div 2 ^ sh + 1) * 2 ^ sh" by simp
  with base have up: "2 ^ 53 \<le> (m div 2 ^ sh + 1) * 2 ^ sh" by linarith
  show ?thesis
    using k base up by (simp add: roundToDouble_def Let_def k_def [symmetric] sh_def [symmetric])
qed

lemma roundToDouble_pos: "0 < m \<Longrightarrow> 0 < roundToDouble m"
proof (cases "m < 2 ^ 53")
  case True
  assume "0 < m"
  then show ?thesis using True by (simp add: roundToDouble_exact)
next
  case False
  then have "2 ^ 53 \<le> roundToDouble m" by (intro roundToDouble_ge) simp
  then show ?thesis by (simp add: order.strict_trans2 [of 0 "2 ^ 53"])
qed

lemma toNumber_exact: "\<bar>x\<bar> < 2 ^ 53 \<Longrightarrow> toNumber x = Num x"
proof -
  assume a: "\<bar>x\<bar> < 2 ^ 53"
  then have "nat \<bar>x\<bar> < 2 ^ 53" by (simp add: nat_less_iff)
  then have r: "roundToDouble (nat \<bar>x\<bar>) = nat \<bar>x\<bar>" by (rule roundToDouble_exact)
  have "(2::nat) ^ 53 < 2 ^ 1024" by (rule power_strict_increasing) simp_all
  with \<open>nat \<bar>x\<bar> < 2 ^ 53\<close> have "\<not> (2::nat) ^ 1024 \<le> nat \<bar>x\<bar>" by linarith
  then show ?thesis by (simp add: toNumber_def r Let_def)
qed

lemma toNumber_sign:
  "toNumber x = PosInfinity \<Longrightarrow> 0 < x"
  "toNumber x = NegInfinity \<Longrightarrow> x < 0"
  "toNumber x = Num k \<Longrightarrow> (0 < x) = (0 < k) \<and> (x < 0) = (k < 0)"
  "toNumber x \<noteq> NaN"
proof -
  have pos: "0 < roundToDouble (nat \<bar>x\<bar>)" if "x \<noteq> 0"
    using that by (intro roundToDouble_pos) simp
  have zero: "roundToDouble (nat \<bar>0::int\<bar>) = 0" by (simp add: roundToDouble_exact)
  show "toNumber x = PosInfinity \<Longrightarrow> 0 < x"
    using zero by (cases "x = 0") (auto simp: toNumber_def Let_def split: if_splits)
  show "toNumber x = NegInfinity \<Longrightarrow> x < 0"
    by (auto simp: toNumber_def Let_def split: if_splits)
  show "toNumber x = Num k \<Longrightarrow> (0 < x) = (0 < k) \<and> (x < 0) = (k < 0)"
    using pos zero by (cases "x = 0") (auto simp: toNumber_def Let_def split: if_splits)
  show "toNumber x \<noteq> NaN"
    by (simp add: toNumber_def Let_def)
qed


subsection \<open>GET /api/catalog-assets/\<close>

lemma Math_ceil_div20: "Math_ceil (real n / 20) = int ((n + 19) div 20)"
proof -
  have "\<lceil>real n / 20\<rceil> = \<lceil>(of_int (int n) :: real) / of_int 20\<rceil>" by simp
  also have "\<dots> = - (- int n div 20)" by (rule ceiling_divide_eq_div)
  also have "\<dots> = int ((n + 19) div 20)" by linarith
  finally show ?thesis by (simp add: Math_ceil_def)
qed

lemma Math_ceil_one_row: "Math_ceil (real (length [r]) / 20) = 1"
  using Math_ceil_div20 [of 1] by simp

text \<open>The page number: \<open>0\<close>, an absent value and an unparsable value all give page 1.\<close>

lemma parseInt10_zero: "parseInt10 ''0'' = Some 0"
  by (simp add: parseInt10_def isWhiteSpace_def isDigit_def digitsVal_def digitVal_def)

lemma parseInt10_undefined: "parseInt10 ''undefined'' = None"
  by (simp add: parseInt10_def isWhiteSpace_def isDigit_def)

lemma pageNum_of_parsed:
  "parseInt10 (template_str page) = Some n \<Longrightarrow> 0 < \<bar>n\<bar> \<Longrightarrow> \<bar>n\<bar> < 2 ^ 53 \<Longrightarrow>
     pageNum_of page = Num n"
  by (simp add: pageNum_of_def parseInt_def toNumber_exact)

lemma pageNum_of_zero: "pageNum_of (Some ''0'') = Num 1"
  by (simp add: pageNum_of_def parseInt_def template_str_def parseInt10_zero toNumber_exact)

lemma pageNum_of_absent: "pageNum_of None = Num 1"
  by (simp add: pageNum_of_def parseInt_def template_str_def parseInt10_undefined)

lemma pageNum_of_unparsable: "parseInt10 q = None \<Longrightarrow> pageNum_of (Some q) = Num 1"
  by (simp add: pageNum_of_def parseInt_def template_str_def)

lemma less_than_1_pageNum:
  "less_than_1 (pageNum_of page) = (\<exists>n. n < 0 \<and> parseInt10 (template_str page) = Some n)"
proof (cases "parseInt10 (template_str page)")
  case None
  then show ?thesis by (simp add: pageNum_of_def parseInt_def less_than_1_def)
next
  case (Some m)
  show ?thesis
  proof (cases "toNumber m")
    case NaN
    then show ?thesis using toNumber_sign(4) [of m] by simp
  next
    case (Num k)
    then show ?thesis
      using Some toNumber_sign(3) [OF Num]
      by (auto simp: pageNum_of_def parseInt_def less_than_1_def)
  next
    case PosInfinity
    then show ?thesis
      using Some toNumber_sign(1) [OF PosInfinity]
      by (simp add: pageNum_of_def parseInt_def less_than_1_def)
  next
    case NegInfinity
    then show ?thesis
      using Some toNumber_sign(2) [OF NegInfinity]
      by (simp add: pageNum_of_def parseInt_def less_than_1_def)
  qed
qed

text \<open>
  The handler when the 400 is not sent and the engine accepts the offset, and the set of
  replies when the 400 is sent: there a second \<open>send\<close> follows under the same reply.
\<close>

lemma catalog_assets_accepted:
  assumes "\<not> less_than_1 (pageNum_of page)"
    and "offset_of (pageNum_of page) = Num k" and "0 \<le> k" and "k < 2 ^ 63"
  shows "catalog_assets cfg rs page =
           \<lparr>statusCode = 200,
            sent = [(200, JObj [(''assets'', JObj (reduce_assets (take 20 (drop (nat k) rs)))),
                     (''pages'', JNum (Math_ceil (real (length rs) / 20)))])]\<rparr>"
  using assms by (simp add: catalog_assets_def findAll_def Let_def reply_defs)

lemma offset_of_exact:
  "1 \<le> n \<Longrightarrow> (n - 1) * 20 < 2 ^ 53 \<Longrightarrow> offset_of (Num n) = Num ((n - 1) * 20)"
proof -
  assume a: "1 \<le> n" "(n - 1) * 20 < 2 ^ 53"
  then have "\<bar>n - 1\<bar> < 2 ^ 53" "\<bar>(n - 1) * 20\<bar> < 2 ^ 53" by simp_all
  then show ?thesis by (simp add: offset_of_def toNumber_exact)
qed

lemma catalog_assets_first_page:
  assumes "pageNum_of page = Num 1"
  shows "catalog_assets cfg rs page =
           \<lparr>statusCode = 200,
            sent = [(200, JObj [(''assets'', JObj (reduce_assets (take 20 rs))),
                     (''pages'', JNum (Math_ceil (real (length rs) / 20)))])]\<rparr>"
  using catalog_assets_accepted [of page 0 cfg rs] offset_of_exact [of 1]
  by (simp add: assms less_than_1_def)

lemma catalog_assets_no_400:
  assumes "\<not> less_than_1 (pageNum_of page)"
  shows "(400, ErrorBody ''Page must be a positive number!'')
           \<notin> set (sent (catalog_assets cfg rs page))"
  using assms by (simp add: catalog_assets_def Let_def reply_defs split: sum.splits)

lemma catalog_assets_400:
  assumes "less_than_1 (pageNum_of page)"
  shows "(400, ErrorBody ''Page must be a positive number!'')
           \<in> set (sent (catalog_assets cfg rs page))"
  using assms by (simp add: catalog_assets_def Let_def reply_defs split: sum.splits)

lemma catalog_assets_negative:
  assumes "parseInt10 (template_str page) = Some n" and "n < 0" and "- (2 ^ 53) < (n - 1) * 20"
  shows "sent (catalog_assets cfg rs page) =
           [(400, ErrorBody ''Page must be a positive number!''),
            (if db_postgres cfg then (500, ErrorBody ''An error occured'')
             else (400, JObj [(''assets'', JObj (reduce_assets (take 20 rs))),
                     (''pages'', JNum (Math_ceil (real (length rs) / 20)))]))]"
proof -
  have b: "\<bar>n\<bar> < 2 ^ 53" "\<bar>n - 1\<bar> < 2 ^ 53" "\<bar>(n - 1) * 20\<bar> < 2 ^ 53"
    using assms(2,3) by simp_all
  have pn: "pageNum_of page = Num n"
    using assms(1,2) b(1) by (intro pageNum_of_parsed) simp_all
  have off: "offset_of (Num n) = Num ((n - 1) * 20)"
    using b by (simp add: offset_of_def toNumber_exact)
  have "(2::int) ^ 53 < 2 ^ 63" by (rule power_strict_increasing) simp_all
  with b(3) have small: "\<not> (2::int) ^ 63 \<le> \<bar>(n - 1) * 20\<bar>" by linarith
  have neg: "(n - 1) * 20 < 0" using assms(2) by simp
  show ?thesis
    using assms(2) small neg
    by (simp add: catalog_assets_def pn off findAll_def less_than_1_def Let_def reply_defs)
qed




















text \<open>
  C10: the query value \<open>page=0\<close> is not rejected. The parsed 0 is falsy and is replaced by
  the default 1, so the reply is the one of a request without \<open>page\<close>: a single 200 with
  the first page. The error \<open>Page must be a positive number!\<close> is sent exactly for the
  query values that parse to a negative integer.
\<close>

theorem page_zero_not_rejected:
  "catalog_assets cfg rs (Some ''0'') = catalog_assets cfg rs None \<and>
   catalog_assets cfg rs (Some ''0'') =
     \<lparr>statusCode = 200,
      sent = [(200, JObj [(''assets'', JObj (reduce_assets (take 20 rs))),
               (''pages'', JNum (Math_ceil (real (length rs) / 20)))])]\<rparr> \<and>
   (\<forall>page. ((400, ErrorBody ''Page must be a positive number!'')
              \<in> set (sent (catalog_assets cfg rs page))) =
            (\<exists>n. n < 0 \<and> parseInt10 (template_str page) = Some n))"
proof -
  have zero: "catalog_assets cfg rs (Some ''0'') =
     \<lparr>statusCode = 200,
      sent = [(200, JObj [(''assets'', JObj (reduce_assets (take 20 rs))),
               (''pages'', JNum (Math_ceil (real (length rs) / 20)))])]\<rparr>"
    by (rule catalog_assets_first_page) (rule pageNum_of_zero)
  have absent: "catalog_assets cfg rs None = catalog_assets cfg rs (Some ''0'')"
    using catalog_assets_first_page [OF pageNum_of_absent, of cfg rs] by (simp add: zero)
  have iff: "((400, ErrorBody ''Page must be a positive number!'')
              \<in> set (sent (catalog_assets cfg rs page))) =
            (\<exists>n. n < 0 \<and> parseInt10 (template_str page) = Some n)" for page
    using catalog_assets_400 [of page cfg rs] catalog_assets_no_400 [of page cfg rs]
    by (cases "less_than_1 (pageNum_of page)") (simp_all add: less_than_1_pageNum)
  show ?thesis using zero absent iff by simp
qed

text \<open>
  C2: every query value \<open>n < 1\<close> is answered with 400 and
  \<open>{error: 'Page must be a positive number!'}\<close>. On \<open>page=0\<close> the code sends no 400: the
  reply is 200 with the first page.
\<close>

theorem page_zero_gets_first_page:
  "catalog_assets example_cfg [aurora] (Some ''0'') =
     \<lparr>statusCode = 200,
      sent = [(200, JObj [(''assets'', JObj [(''pkg-1'', asset_entry aurora)]),
               (''pages'', JNum 1)])]\<rparr>"
proof -
  have "reduce_assets [aurora] = [(''pkg-1'', asset_entry aurora)]"
    by (simp add: reduce_assets_def assign_def aurora_def)
  then show ?thesis
    using catalog_assets_first_page [OF pageNum_of_zero, of example_cfg "[aurora]"]
      Math_ceil_one_row [of aurora]
    by simp
qed

end
